theory Spec2Isabelle
  imports Main "HOL-Library.Sublist"
begin

section \<open>Data model (App.tsx, lines 3-15)\<close>

text \<open>
  The TypeScript type \<open>Timer\<close>. The field \<open>id\<close> is called \<open>timer_id\<close> here, since
  \<open>id\<close> is the identity function of HOL. Millisecond counts and instants
  (\<open>Date.now()\<close>) are integers; names and identifiers are strings of 8-bit characters.
\<close>

record Timer =
  timer_id :: string
  name :: string
  durationMs :: int
  remainingMs :: int
  isRunning :: bool
  isSelected :: bool

text \<open>The type \<open>PersistedState\<close>; its field \<open>timers\<close> is called \<open>snap_timers\<close>.\<close>

record PersistedState =
  snap_timers :: "Timer list"
  lastUpdatedMs :: int

text \<open>
  The state of the component \<open>App\<close> (lines 82-87): the four \<open>useState\<close> cells that the
  timer logic reads, the mutable cell \<open>lastTickRef.current\<close>, and the two parts of the
  environment the effects write to: the entry of \<open>localStorage\<close> under \<open>STORAGE_KEY\<close>
  (\<open>None\<close> when \<open>getItem\<close> returns \<open>null\<close>) and the messages given to \<open>console.error\<close>.
  The \<open>language\<close> cell only selects display labels and is left out.
\<close>

record App =
  timers :: "Timer list"
  nameInput :: string
  durationMinutes :: int
  lastTickRef :: int
  hydrated :: bool
  localStorage :: "string option"
  console :: "string list"

definition initialDurationMinutes :: int where
  "initialDurationMinutes = 60"

text \<open>
  The state at mount: \<open>mounted\<close> is the instant \<open>useRef(Date.now())\<close> reads and
  \<open>stored\<close> is what the browser holds under \<open>STORAGE_KEY\<close>.
\<close>

definition initialApp :: "int \<Rightarrow> string option \<Rightarrow> App" where
  "initialApp mounted stored =
     \<lparr>timers = [], nameInput = [], durationMinutes = initialDurationMinutes,
      lastTickRef = mounted, hydrated = False, localStorage = stored, console = []\<rparr>"

section \<open>Load effect (lines 90-107)\<close>

text \<open>The arrow function given to \<open>parsed.timers.map\<close> (lines 96-100).\<close>

definition adjustTimer :: "int \<Rightarrow> Timer \<Rightarrow> Timer" where
  "adjustTimer elapsed timer =
     (if \<not> isRunning timer \<or> remainingMs timer \<le> 0 then timer
      else timer\<lparr>remainingMs := max 0 (remainingMs timer - elapsed),
                 isRunning := (0 < max 0 (remainingMs timer - elapsed))\<rparr>)"

text \<open>
  The body of the \<open>try\<close> block. \<open>JSON.parse\<close> belongs to the platform and is a
  parameter: \<open>parse raw = None\<close> stands for a parse that throws (or whose result cannot
  be read as a \<open>PersistedState\<close>, which throws in the lines that follow). The three
  outcomes are the early \<open>return\<close> of line 93, the normal end of the block, and the jump
  to \<open>catch\<close>. The test \<open>!raw\<close> holds for \<open>null\<close> and for the empty string.
\<close>

datatype load_outcome = NoSnapshot | Adjusted "Timer list" | Thrown

definition loadTry :: "(string \<Rightarrow> PersistedState option) \<Rightarrow> int \<Rightarrow> string option \<Rightarrow> load_outcome" where
  "loadTry parse now stored =
     (case stored of
        None \<Rightarrow> NoSnapshot
      | Some raw \<Rightarrow>
          if raw = [] then NoSnapshot
          else (case parse raw of
                  None \<Rightarrow> Thrown
                | Some parsed \<Rightarrow>
                    Adjusted (map (adjustTimer (max 0 (now - lastUpdatedMs parsed)))
                                  (snap_timers parsed))))"

text \<open>
  The whole effect. \<open>Date.now()\<close> is read twice (lines 95 and 102), hence two instants.
  The early \<open>return\<close> leaves the effect, so \<open>setHydrated(true)\<close> is not reached then.
\<close>

definition loadEffect :: "(string \<Rightarrow> PersistedState option) \<Rightarrow> int \<Rightarrow> int \<Rightarrow> App \<Rightarrow> App" where
  "loadEffect parse now now2 st =
     (case loadTry parse now (localStorage st) of
        NoSnapshot \<Rightarrow> st
      | Adjusted adjusted \<Rightarrow> st\<lparr>timers := adjusted, lastTickRef := now2, hydrated := True\<rparr>
      | Thrown \<Rightarrow>
          st\<lparr>console := console st @ [''Failed to load timers from storage''],
             hydrated := True\<rparr>)"

section \<open>Tick (lines 109-134)\<close>

text \<open>The arrow function given to \<open>prev.map\<close> (lines 116-129).\<close>

definition tickTimer :: "int \<Rightarrow> Timer \<Rightarrow> Timer" where
  "tickTimer delta timer =
     (if \<not> isRunning timer \<or> remainingMs timer \<le> 0 then
        (if remainingMs timer \<le> 0 \<and> isRunning timer
         then timer\<lparr>remainingMs := 0, isRunning := False\<rparr>
         else timer)
      else timer\<lparr>remainingMs := max 0 (remainingMs timer - delta),
                 isRunning := (0 < max 0 (remainingMs timer - delta))\<rparr>)"

text \<open>One firing of the interval callback at the instant \<open>now\<close>.\<close>

definition tick :: "int \<Rightarrow> App \<Rightarrow> App" where
  "tick now st =
     st\<lparr>lastTickRef := now,
        timers := map (tickTimer (now - lastTickRef st)) (timers st)\<rparr>"

section \<open>Persist effect (lines 136-147)\<close>

text \<open>
  \<open>JSON.stringify\<close> is a parameter; \<open>writable\<close> is false when \<open>setItem\<close> throws.
\<close>

definition persistEffect :: "(PersistedState \<Rightarrow> string) \<Rightarrow> bool \<Rightarrow> int \<Rightarrow> App \<Rightarrow> App" where
  "persistEffect stringify writable now st =
     (if \<not> hydrated st then st
      else if writable
        then st\<lparr>localStorage :=
                  Some (stringify \<lparr>snap_timers = timers st, lastUpdatedMs = now\<rparr>)\<rparr>
        else st\<lparr>console := console st @ [''Failed to persist timers'']\<rparr>)"

section \<open>User actions (lines 149-227 and 329-339)\<close>

text \<open>
  \<open>String.prototype.trim\<close> on 8-bit characters: the white space and line terminators
  of ECMAScript below code 256 are TAB, LF, VT, FF, CR, SPACE and NBSP.
\<close>

definition isWhiteSpace :: "char \<Rightarrow> bool" where
  "isWhiteSpace c =
     (c = CHR 0x09 \<or> c = CHR 0x0A \<or> c = CHR 0x0B \<or> c = CHR 0x0C \<or> c = CHR 0x0D
      \<or> c = CHR 0x20 \<or> c = CHR 0xA0)"

definition trim :: "string \<Rightarrow> string" where
  "trim s = rev (dropWhile isWhiteSpace (rev (dropWhile isWhiteSpace s)))"

text \<open>
  \<open>addTimer\<close>; \<open>newId\<close> is what \<open>crypto.randomUUID()\<close> (or the \<open>Math.random\<close>
  fallback) returns.
\<close>

definition addTimer :: "string \<Rightarrow> App \<Rightarrow> App" where
  "addTimer newId st =
     (if trim (nameInput st) = [] then st
      else st\<lparr>timers := timers st @
                  [\<lparr>timer_id = newId, name = trim (nameInput st),
                    durationMs = max 1 (durationMinutes st) * 60 * 1000,
                    remainingMs = max 1 (durationMinutes st) * 60 * 1000,
                    isRunning = False, isSelected = False\<rparr>],
              nameInput := []\<rparr>)"

definition toggleSelect :: "string \<Rightarrow> App \<Rightarrow> App" where
  "toggleSelect i st =
     st\<lparr>timers := map (\<lambda>timer. if timer_id timer = i
                                then timer\<lparr>isSelected := \<not> isSelected timer\<rparr>
                                else timer) (timers st)\<rparr>"

definition removeTimer :: "string \<Rightarrow> App \<Rightarrow> App" where
  "removeTimer i st = st\<lparr>timers := filter (\<lambda>timer. timer_id timer \<noteq> i) (timers st)\<rparr>"

definition removeSelected :: "App \<Rightarrow> App" where
  "removeSelected st = st\<lparr>timers := filter (\<lambda>timer. \<not> isSelected timer) (timers st)\<rparr>"

definition startSelected :: "int \<Rightarrow> App \<Rightarrow> App" where
  "startSelected now st =
     st\<lparr>lastTickRef := now,
        timers := map (\<lambda>timer. if isSelected timer \<and> 0 < remainingMs timer
                                then timer\<lparr>isRunning := True\<rparr>
                                else timer) (timers st)\<rparr>"

definition startAll :: "int \<Rightarrow> App \<Rightarrow> App" where
  "startAll now st =
     st\<lparr>lastTickRef := now,
        timers := map (\<lambda>timer. if 0 < remainingMs timer
                                then timer\<lparr>isRunning := True\<rparr>
                                else timer) (timers st)\<rparr>"

definition pauseSelected :: "App \<Rightarrow> App" where
  "pauseSelected st =
     st\<lparr>timers := map (\<lambda>timer. if isSelected timer
                                then timer\<lparr>isRunning := False\<rparr>
                                else timer) (timers st)\<rparr>"

definition pauseAll :: "App \<Rightarrow> App" where
  "pauseAll st = st\<lparr>timers := map (\<lambda>timer. timer\<lparr>isRunning := False\<rparr>) (timers st)\<rparr>"

definition resetSelected :: "App \<Rightarrow> App" where
  "resetSelected st =
     st\<lparr>timers := map (\<lambda>timer. if isSelected timer
                                then timer\<lparr>remainingMs := durationMs timer,
                                           isRunning := False\<rparr>
                                else timer) (timers st)\<rparr>"

text \<open>
  The start/pause button of one card (lines 329-342). The state update is the anonymous
  \<open>onClick\<close> handler, named \<open>toggleRunning\<close> here; it has no test on \<open>remainingMs\<close>.
  The button carries \<open>disabled={timer.remainingMs <= 0}\<close>, and a disabled button
  delivers no click: \<open>clickStartPause\<close> is a click on the button of the card rendered
  for \<open>timer\<close>.
\<close>

definition toggleRunning :: "string \<Rightarrow> App \<Rightarrow> App" where
  "toggleRunning i st =
     st\<lparr>timers := map (\<lambda>t. if timer_id t = i
                            then t\<lparr>isRunning := \<not> isRunning t\<rparr>
                            else t) (timers st)\<rparr>"

definition startPauseDisabled :: "Timer \<Rightarrow> bool" where
  "startPauseDisabled timer = (remainingMs timer \<le> 0)"

definition clickStartPause :: "Timer \<Rightarrow> App \<Rightarrow> App" where
  "clickStartPause timer st =
     (if startPauseDisabled timer then st else toggleRunning (timer_id timer) st)"

text \<open>The \<open>onChange\<close> handlers of the two form fields (lines 259 and 269).\<close>

definition setNameInput :: "string \<Rightarrow> App \<Rightarrow> App" where
  "setNameInput text st = st\<lparr>nameInput := text\<rparr>"

definition setDurationMinutes :: "int \<Rightarrow> App \<Rightarrow> App" where
  "setDurationMinutes minutes st = st\<lparr>durationMinutes := minutes\<rparr>"

section \<open>The invariants of the data model\<close>

definition withinDuration :: "Timer \<Rightarrow> bool" where
  "withinDuration timer = (0 \<le> remainingMs timer \<and> remainingMs timer \<le> durationMs timer)"

text \<open>What no action other than creation and removal may touch.\<close>

definition fixedFields :: "Timer \<Rightarrow> string \<times> string \<times> int" where
  "fixedFields timer = (timer_id timer, name timer, durationMs timer)"

section \<open>Concrete inputs\<close>

text \<open>
  A timer with the given id, duration, remaining time and run flag; a state holding a
  running and a paused timer, with the tick baseline at 5000; a state holding a selected
  timer at zero and a paused timer with time left; stand-ins for \<open>JSON.stringify\<close> and
  \<open>JSON.parse\<close> that write a fixed text and read it back as a given snapshot (every
  other text fails to parse); two snapshots of one running timer.
\<close>

definition exampleTimer :: "string \<Rightarrow> int \<Rightarrow> int \<Rightarrow> bool \<Rightarrow> Timer" where
  "exampleTimer i d r running =
     \<lparr>timer_id = i, name = ''Ann'', durationMs = d, remainingMs = r,
      isRunning = running, isSelected = False\<rparr>"

definition twoTimers :: App where
  "twoTimers =
     \<lparr>timers = [exampleTimer ''a'' 60000 10000 True, exampleTimer ''b'' 60000 20000 False],
      nameInput = [], durationMinutes = 60, lastTickRef = 5000, hydrated = True,
      localStorage = None, console = []\<rparr>"

definition pausedPair :: App where
  "pausedPair =
     \<lparr>timers = [(exampleTimer ''a'' 60000 0 False)\<lparr>isSelected := True\<rparr>,
                exampleTimer ''b'' 60000 20000 False],
      nameInput = [], durationMinutes = 60, lastTickRef = 5000, hydrated = True,
      localStorage = None, console = []\<rparr>"

definition stringifyFixed :: "PersistedState \<Rightarrow> string" where
  "stringifyFixed payload = ''snapshot''"

definition parseFixed :: "PersistedState \<Rightarrow> string \<Rightarrow> PersistedState option" where
  "parseFixed payload raw = (if raw = ''snapshot'' then Some payload else None)"

definition runningSnapshot :: "int \<Rightarrow> PersistedState" where
  "runningSnapshot T =
     \<lparr>snap_timers = [exampleTimer ''a'' 60000 10000 True], lastUpdatedMs = T\<rparr>"

definition zeroRunningSnapshot :: PersistedState where
  "zeroRunningSnapshot =
     \<lparr>snap_timers = [exampleTimer ''a'' 60000 0 True], lastUpdatedMs = 1000\<rparr>"

text \<open>
  A state reached from the initial one: the form is filled in with a name and one
  minute, the timer is added, and \<open>startAll\<close> is pressed at the instant 5000.
\<close>

definition oneMinuteRunning :: App where
  "oneMinuteRunning =
     startAll 5000
       (addTimer ''t1'' (setDurationMinutes 1 (setNameInput ''Ann'' (initialApp 0 None))))"

text \<open>
  A first session: nothing is stored, the load effect runs at the instant 1000, and the
  user adds the timer ``Ann'' with the form's initial 60 minutes. \<open>annPayload\<close> is the
  payload the persist effect builds from that collection at the instant 2000.
\<close>

definition annPayload :: PersistedState where
  "annPayload =
     \<lparr>snap_timers = [exampleTimer ''t1'' 3600000 3600000 False], lastUpdatedMs = 2000\<rparr>"

definition firstSession :: App where
  "firstSession =
     addTimer ''t1''
       (setNameInput ''Ann'' (loadEffect (parseFixed annPayload) 1000 1000 (initialApp 0 None)))"

section \<open>What each action does to the collection\<close>

lemma timers_tick:
  "timers (tick now st) = map (tickTimer (now - lastTickRef st)) (timers st)"
  by (simp add: tick_def)

lemma timers_actions:
  "timers (toggleSelect i st) =
     map (\<lambda>timer. if timer_id timer = i then timer\<lparr>isSelected := \<not> isSelected timer\<rparr>
                   else timer) (timers st)"
  "timers (removeTimer i st) = filter (\<lambda>timer. timer_id timer \<noteq> i) (timers st)"
  "timers (removeSelected st) = filter (\<lambda>timer. \<not> isSelected timer) (timers st)"
  "timers (startSelected now st) =
     map (\<lambda>timer. if isSelected timer \<and> 0 < remainingMs timer
                   then timer\<lparr>isRunning := True\<rparr> else timer) (timers st)"
  "timers (startAll now st) =
     map (\<lambda>timer. if 0 < remainingMs timer then timer\<lparr>isRunning := True\<rparr> else timer)
       (timers st)"
  "timers (pauseSelected st) =
     map (\<lambda>timer. if isSelected timer then timer\<lparr>isRunning := False\<rparr> else timer)
       (timers st)"
  "timers (pauseAll st) = map (\<lambda>timer. timer\<lparr>isRunning := False\<rparr>) (timers st)"
  "timers (resetSelected st) =
     map (\<lambda>timer. if isSelected timer
                   then timer\<lparr>remainingMs := durationMs timer, isRunning := False\<rparr>
                   else timer) (timers st)"
  "timers (toggleRunning i st) =
     map (\<lambda>t. if timer_id t = i then t\<lparr>isRunning := \<not> isRunning t\<rparr> else t) (timers st)"
  by (simp_all add: toggleSelect_def removeTimer_def removeSelected_def startSelected_def
      startAll_def pauseSelected_def pauseAll_def resetSelected_def toggleRunning_def)

lemma loadEffect_parsed:
  assumes "localStorage st = Some raw" and "raw \<noteq> []" and "parse raw = Some parsed"
  shows "loadEffect parse now now2 st =
           st\<lparr>timers := map (adjustTimer (max 0 (now - lastUpdatedMs parsed)))
                            (snap_timers parsed),
              lastTickRef := now2, hydrated := True\<rparr>"
  using assms by (simp add: loadEffect_def loadTry_def)

lemma loadEffect_fixed:
  "loadEffect (parseFixed p) now now2 (initialApp t0 (Some ''snapshot'')) =
     (initialApp t0 (Some ''snapshot''))
       \<lparr>timers := map (adjustTimer (max 0 (now - lastUpdatedMs p))) (snap_timers p),
        lastTickRef := now2, hydrated := True\<rparr>"
  by (rule loadEffect_parsed) (simp_all add: initialApp_def parseFixed_def)

section \<open>Tick\<close>

text \<open>
  Claim C4. A tick at the instant \<open>now\<close> uses \<open>delta = now - lastTickRef\<close>. A timer that
  is running with time left gets \<open>max 0 (remainingMs - delta)\<close> and is marked not running
  exactly when that is zero; a timer that is not running is left as it is (so its
  \<open>remainingMs\<close> does not change).
\<close>

theorem tick_spec:
  assumes "k < length (timers st)"
  shows "(isRunning (timers st ! k) \<and> 0 < remainingMs (timers st ! k) \<longrightarrow>
            remainingMs (timers (tick now st) ! k)
              = max 0 (remainingMs (timers st ! k) - (now - lastTickRef st))
          \<and> (\<not> isRunning (timers (tick now st) ! k)
               \<longleftrightarrow> remainingMs (timers (tick now st) ! k) = 0))
       \<and> (\<not> isRunning (timers st ! k) \<longrightarrow>
            timers (tick now st) ! k = timers st ! k)"
  using assms by (auto simp add: timers_tick tickTimer_def)

theorem tick_spec_witness:
  "remainingMs (timers (tick 9000 twoTimers) ! 0) = 6000
   \<and> isRunning (timers (tick 9000 twoTimers) ! 0)
   \<and> remainingMs (timers (tick 20000 twoTimers) ! 0) = 0
   \<and> \<not> isRunning (timers (tick 20000 twoTimers) ! 0)
   \<and> timers (tick 9000 twoTimers) ! 1 = exampleTimer ''b'' 60000 20000 False"
  using tick_spec [of 0 twoTimers 9000] tick_spec [of 0 twoTimers 20000]
    tick_spec [of 1 twoTimers 9000]
  by (simp add: twoTimers_def exampleTimer_def timers_tick tickTimer_def)

text \<open>
  After a tick, whatever the flags before it and whatever \<open>delta\<close>, a timer at zero is
  not running: the branch of lines 118-120 pauses a timer found running at or below zero.
\<close>

lemma tickTimer_zero_paused:
  "remainingMs (tickTimer delta timer) = 0 \<Longrightarrow> \<not> isRunning (tickTimer delta timer)"
  by (auto simp add: tickTimer_def split: if_splits)

lemma tick_zero_paused:
  "timer \<in> set (timers (tick now st)) \<Longrightarrow> remainingMs timer = 0 \<Longrightarrow> \<not> isRunning timer"
  by (auto simp add: timers_tick dest: tickTimer_zero_paused)

text \<open>
  Claim C2 (a timer at zero is not running immediately after any tick and immediately
  after load, whatever the flags of the loaded snapshot). The load effect returns a
  persisted timer with \<open>remainingMs = 0\<close> and \<open>isRunning = true\<close> as it is: after load it
  is at zero and still flagged running. Only the next tick pauses it.
\<close>

theorem load_leaves_running_timer_at_zero:
  "map remainingMs
     (timers (loadEffect (parseFixed zeroRunningSnapshot) 2000 2000
                (initialApp 0 (Some ''snapshot'')))) = [0]
   \<and> map isRunning
     (timers (loadEffect (parseFixed zeroRunningSnapshot) 2000 2000
                (initialApp 0 (Some ''snapshot'')))) = [True]
   \<and> map isRunning
     (timers (tick 3000 (loadEffect (parseFixed zeroRunningSnapshot) 2000 2000
                (initialApp 0 (Some ''snapshot''))))) = [False]"
  by (simp add: loadEffect_fixed zeroRunningSnapshot_def exampleTimer_def adjustTimer_def
      tick_def tickTimer_def)

section \<open>The bounds on the remaining time\<close>

text \<open>
  Claim C1 (\<open>0 \<le> remainingMs \<le> durationMs\<close> after every operation, at every current
  instant). The tick subtracts \<open>now - lastTickRef\<close> with no lower bound on it. In a state
  reached from the initial one by adding a one-minute timer and starting it at the
  instant 5000, the bounds hold; a tick whose clock reads 4000 leaves the timer with
  61000 ms of its 60000 ms, outside the bounds.
\<close>

theorem tick_after_clock_step_back_exceeds_duration:
  "list_all withinDuration (timers oneMinuteRunning)
   \<and> lastTickRef oneMinuteRunning = 5000
   \<and> map durationMs (timers (tick 4000 oneMinuteRunning)) = [60000]
   \<and> map remainingMs (timers (tick 4000 oneMinuteRunning)) = [61000]
   \<and> \<not> list_all withinDuration (timers (tick 4000 oneMinuteRunning))"
  by (simp add: oneMinuteRunning_def startAll_def addTimer_def setNameInput_def
      setDurationMinutes_def initialApp_def trim_def isWhiteSpace_def tick_def tickTimer_def
      withinDuration_def)

text \<open>
  Claim C6 (no tick and no load increases the remaining time of a running timer, at
  every current instant). Thirty seconds after the start the same timer is running with
  30000 ms left; a tick whose clock reads one second less than the baseline leaves it
  running with 31000 ms.
\<close>

theorem tick_after_clock_step_back_adds_time:
  "map isRunning (timers (tick 35000 oneMinuteRunning)) = [True]
   \<and> map remainingMs (timers (tick 35000 oneMinuteRunning)) = [30000]
   \<and> map isRunning (timers (tick 34000 (tick 35000 oneMinuteRunning))) = [True]
   \<and> map remainingMs (timers (tick 34000 (tick 35000 oneMinuteRunning))) = [31000]"
  by (simp add: oneMinuteRunning_def startAll_def addTimer_def setNameInput_def
      setDurationMinutes_def initialApp_def trim_def isWhiteSpace_def tick_def tickTimer_def)

text \<open>
  While the clock does not go back (\<open>lastTickRef \<le> now\<close>) every action and the tick keep
  the bounds, and so does the load of a snapshot that is within them; a tick or a load
  then never adds time and never goes below zero.
\<close>

lemma withinDuration_tickTimer:
  "0 \<le> delta \<Longrightarrow> withinDuration timer \<Longrightarrow> withinDuration (tickTimer delta timer)"
  by (auto simp add: withinDuration_def tickTimer_def)

lemma withinDuration_adjustTimer:
  "0 \<le> elapsed \<Longrightarrow> withinDuration timer \<Longrightarrow> withinDuration (adjustTimer elapsed timer)"
  by (auto simp add: withinDuration_def adjustTimer_def)

lemma bounds_kept_while_clock_moves_forward:
  assumes "list_all withinDuration (timers st)"
  shows "list_all withinDuration (timers (addTimer newId st))"
    and "list_all withinDuration (timers (toggleSelect i st))"
    and "list_all withinDuration (timers (removeTimer i st))"
    and "list_all withinDuration (timers (removeSelected st))"
    and "list_all withinDuration (timers (startSelected now st))"
    and "list_all withinDuration (timers (startAll now st))"
    and "list_all withinDuration (timers (clickStartPause timer st))"
    and "list_all withinDuration (timers (pauseSelected st))"
    and "list_all withinDuration (timers (pauseAll st))"
    and "list_all withinDuration (timers (resetSelected st))"
    and "lastTickRef st \<le> now \<Longrightarrow> list_all withinDuration (timers (tick now st))"
proof -
  show "list_all withinDuration (timers (addTimer newId st))"
    using assms by (simp add: addTimer_def withinDuration_def)
  show "list_all withinDuration (timers (toggleSelect i st))"
    using assms by (auto simp add: timers_actions list_all_iff withinDuration_def)
  show "list_all withinDuration (timers (removeTimer i st))"
    using assms by (auto simp add: timers_actions list_all_iff)
  show "list_all withinDuration (timers (removeSelected st))"
    using assms by (auto simp add: timers_actions list_all_iff)
  show "list_all withinDuration (timers (startSelected now st))"
    using assms by (auto simp add: timers_actions list_all_iff withinDuration_def)
  show "list_all withinDuration (timers (startAll now st))"
    using assms by (auto simp add: timers_actions list_all_iff withinDuration_def)
  show "list_all withinDuration (timers (clickStartPause timer st))"
    using assms
    by (auto simp add: clickStartPause_def timers_actions list_all_iff withinDuration_def)
  show "list_all withinDuration (timers (pauseSelected st))"
    using assms by (auto simp add: timers_actions list_all_iff withinDuration_def)
  show "list_all withinDuration (timers (pauseAll st))"
    using assms by (auto simp add: timers_actions list_all_iff withinDuration_def)
  show "list_all withinDuration (timers (resetSelected st))"
    using assms by (auto simp add: timers_actions list_all_iff withinDuration_def)
  show "list_all withinDuration (timers (tick now st))" if "lastTickRef st \<le> now"
    using assms that
    by (auto simp add: timers_tick list_all_iff intro: withinDuration_tickTimer)
qed

lemma bounds_kept_by_load:
  assumes "localStorage st = Some raw" and "raw \<noteq> []" and "parse raw = Some parsed"
    and "list_all withinDuration (snap_timers parsed)"
  shows "list_all withinDuration (timers (loadEffect parse now now2 st))"
proof -
  have "timers (loadEffect parse now now2 st)
      = map (adjustTimer (max 0 (now - lastUpdatedMs parsed))) (snap_timers parsed)"
    using assms(1-3) by (simp add: loadEffect_def loadTry_def)
  with assms(4) show ?thesis
    by (auto simp add: list_all_iff intro: withinDuration_adjustTimer)
qed

lemma tickTimer_forward:
  assumes "0 \<le> delta" and "0 \<le> remainingMs timer"
  shows "0 \<le> remainingMs (tickTimer delta timer)"
    and "remainingMs (tickTimer delta timer) \<le> remainingMs timer"
  using assms by (auto simp add: tickTimer_def)

lemma adjustTimer_forward:
  assumes "0 \<le> remainingMs timer"
  shows "0 \<le> remainingMs (adjustTimer (max 0 elapsed) timer)"
    and "remainingMs (adjustTimer (max 0 elapsed) timer) \<le> remainingMs timer"
  using assms by (auto simp add: adjustTimer_def)

section \<open>Load\<close>

text \<open>
  With the clock read before the snapshot's \<open>lastUpdatedMs\<close>, the elapsed time of line 95
  is 0 and not the negative difference: a timer persisted running with 10000 ms at the
  instant 5000 and loaded at the instant 4000 keeps its 10000 ms, where
  \<open>max 0 (remainingMs - (now - lastUpdatedMs))\<close> is 11000.
\<close>

theorem load_clock_step_back_counterexample:
  "map remainingMs
     (timers (loadEffect (parseFixed (runningSnapshot 5000)) 4000 4000
                (initialApp 0 (Some ''snapshot''))))
   \<noteq> [max 0 (10000 - (4000 - 5000))]"
  by (simp add: loadEffect_fixed runningSnapshot_def exampleTimer_def adjustTimer_def)

text \<open>
  Claim C3, amended. Loading a snapshot that parses: the collection is the snapshot's,
  timer by timer. A timer flagged running with \<open>remainingMs > 0\<close> gets
  \<open>max 0 (remainingMs - elapsed)\<close> with \<open>elapsed = max 0 (now - lastUpdatedMs)\<close>, and
  is running exactly when that is positive; when the clock has not gone back
  (\<open>lastUpdatedMs \<le> now\<close>) this is \<open>max 0 (remainingMs - (now - lastUpdatedMs))\<close>. A
  timer not flagged running is restored as it is.
\<close>

theorem load_reconciliation:
  assumes "localStorage st = Some raw" and "raw \<noteq> []" and "parse raw = Some parsed"
    and "k < length (snap_timers parsed)"
  shows "length (timers (loadEffect parse now now2 st)) = length (snap_timers parsed)
    \<and> (isRunning (snap_timers parsed ! k) \<and> 0 < remainingMs (snap_timers parsed ! k) \<longrightarrow>
         timers (loadEffect parse now now2 st) ! k =
           (snap_timers parsed ! k)
             \<lparr>remainingMs :=
                max 0 (remainingMs (snap_timers parsed ! k)
                         - max 0 (now - lastUpdatedMs parsed)),
              isRunning :=
                (0 < max 0 (remainingMs (snap_timers parsed ! k)
                              - max 0 (now - lastUpdatedMs parsed)))\<rparr>)
    \<and> (isRunning (snap_timers parsed ! k) \<and> 0 < remainingMs (snap_timers parsed ! k)
         \<and> lastUpdatedMs parsed \<le> now \<longrightarrow>
         remainingMs (timers (loadEffect parse now now2 st) ! k)
           = max 0 (remainingMs (snap_timers parsed ! k) - (now - lastUpdatedMs parsed))
         \<and> isRunning (timers (loadEffect parse now now2 st) ! k)
           = (0 < remainingMs (timers (loadEffect parse now now2 st) ! k)))
    \<and> (\<not> isRunning (snap_timers parsed ! k) \<longrightarrow>
         timers (loadEffect parse now now2 st) ! k = snap_timers parsed ! k)"
  using assms by (simp add: loadEffect_parsed adjustTimer_def)

theorem load_reconciliation_witness:
  "timers (loadEffect (parseFixed (runningSnapshot 1000)) 5000 5001
             (initialApp 0 (Some ''snapshot''))) ! 0
     = exampleTimer ''a'' 60000 6000 True
   \<and> timers (loadEffect (parseFixed (runningSnapshot 1000)) 16000 16000
             (initialApp 0 (Some ''snapshot''))) ! 0
     = exampleTimer ''a'' 60000 0 False
   \<and> timers (loadEffect (parseFixed \<lparr>snap_timers = timers twoTimers, lastUpdatedMs = 0\<rparr>)
             9000 9000 (initialApp 0 (Some ''snapshot''))) ! 1
     = exampleTimer ''b'' 60000 20000 False"
  using
    load_reconciliation [where st = "initialApp 0 (Some ''snapshot'')" and raw = "''snapshot''"
      and parse = "parseFixed (runningSnapshot 1000)" and parsed = "runningSnapshot 1000"
      and k = 0 and now = 5000 and ?now2.0 = 5001]
    load_reconciliation [where st = "initialApp 0 (Some ''snapshot'')" and raw = "''snapshot''"
      and parse = "parseFixed (runningSnapshot 1000)" and parsed = "runningSnapshot 1000"
      and k = 0 and now = 16000 and ?now2.0 = 16000]
    load_reconciliation [where st = "initialApp 0 (Some ''snapshot'')" and raw = "''snapshot''"
      and parse = "parseFixed \<lparr>snap_timers = timers twoTimers, lastUpdatedMs = 0\<rparr>"
      and parsed = "\<lparr>snap_timers = timers twoTimers, lastUpdatedMs = 0\<rparr>"
      and k = 1 and now = 9000 and ?now2.0 = 9000]
  by (simp add: initialApp_def parseFixed_def runningSnapshot_def exampleTimer_def
      twoTimers_def)

text \<open>
  The two examples of the specification, for every instant \<open>T\<close>: 10000 ms persisted
  running at \<open>T\<close> are 6000 ms, running, at \<open>T + 4000\<close>, and 0 ms, paused, at \<open>T + 15000\<close>.
\<close>

lemma load_examples:
  "timers (loadEffect (parseFixed (runningSnapshot T)) (T + 4000) now2
             (initialApp t0 (Some ''snapshot'')))
     = [exampleTimer ''a'' 60000 6000 True]"
  "timers (loadEffect (parseFixed (runningSnapshot T)) (T + 15000) now2
             (initialApp t0 (Some ''snapshot'')))
     = [exampleTimer ''a'' 60000 0 False]"
  by (simp_all add: loadEffect_fixed runningSnapshot_def exampleTimer_def adjustTimer_def)

text \<open>
  A snapshot that is missing is not treated as a failure: the effect returns at line 93
  and nothing is given to \<open>console.error\<close>.
\<close>

theorem load_missing_not_logged_counterexample:
  "console (loadEffect (parseFixed (runningSnapshot 0)) 1000 1000 (initialApp 0 None)) = []"
  by (simp add: loadEffect_def loadTry_def initialApp_def)

text \<open>
  Claim C9, amended. At startup, when nothing is stored (or the stored text is empty),
  the effect returns without logging and the collection is empty; when the stored text
  does not parse, the exception is caught inside the effect, one message is logged, and
  the collection is empty. In both cases the effect ends with a state: nothing is thrown
  to the caller.
\<close>

theorem load_failure_spec:
  "((stored = None \<or> stored = Some []) \<longrightarrow>
       loadTry parse now stored = NoSnapshot
     \<and> timers (loadEffect parse now now2 (initialApp mounted stored)) = []
     \<and> console (loadEffect parse now now2 (initialApp mounted stored)) = [])
   \<and> (stored = Some raw \<and> raw \<noteq> [] \<and> parse raw = None \<longrightarrow>
       loadTry parse now stored = Thrown
     \<and> timers (loadEffect parse now now2 (initialApp mounted stored)) = []
     \<and> console (loadEffect parse now now2 (initialApp mounted stored))
         = [''Failed to load timers from storage''])"
  by (auto simp add: loadEffect_def loadTry_def initialApp_def)

theorem load_failure_spec_witness:
  "timers (loadEffect (parseFixed (runningSnapshot 0)) 1000 1000 (initialApp 0 None)) = []
   \<and> timers (loadEffect (parseFixed (runningSnapshot 0)) 1000 1000
               (initialApp 0 (Some ''''))) = []
   \<and> timers (loadEffect (parseFixed (runningSnapshot 0)) 1000 1000
               (initialApp 0 (Some ''{timers''))) = []
   \<and> console (loadEffect (parseFixed (runningSnapshot 0)) 1000 1000
               (initialApp 0 (Some ''{timers'')))
       = [''Failed to load timers from storage'']"
  using load_failure_spec [where stored = None and parse = "parseFixed (runningSnapshot 0)"
      and now = 1000 and ?now2.0 = 1000 and mounted = 0]
    load_failure_spec [where stored = "Some ''''" and parse = "parseFixed (runningSnapshot 0)"
      and now = 1000 and ?now2.0 = 1000 and mounted = 0]
    load_failure_spec [where stored = "Some ''{timers''" and raw = "''{timers''"
      and parse = "parseFixed (runningSnapshot 0)"
      and now = 1000 and ?now2.0 = 1000 and mounted = 0]
  by (simp add: parseFixed_def)

text \<open>
  On a first start nothing is stored, the effect returns at line 93 before
  \<open>setHydrated(true)\<close>, and the persist effect, which waits for \<open>hydrated\<close>, writes
  nothing afterwards.
\<close>

lemma first_start_not_hydrated:
  "hydrated (loadEffect parse now now2 (initialApp mounted None)) = False"
  "persistEffect stringify writable later (loadEffect parse now now2 (initialApp mounted None))
     = initialApp mounted None"
  by (simp_all add: loadEffect_def loadTry_def persistEffect_def initialApp_def)

section \<open>Persist, then load\<close>

lemma adjustTimer_zero: "adjustTimer 0 timer = timer"
  by (cases timer) (simp add: adjustTimer_def)

text \<open>
  Once \<open>hydrated\<close> is set, the persist effect at the instant \<open>now\<close> stores the
  collection, and a fresh start that loads what was stored at the same instant has the
  same collection. \<open>JSON.parse\<close> is taken to read back what \<open>JSON.stringify\<close> wrote for
  this payload, which is never the empty text.
\<close>

lemma roundtrip_once_hydrated:
  assumes "hydrated st"
    and "parse (stringify \<lparr>snap_timers = timers st, lastUpdatedMs = now\<rparr>)
           = Some \<lparr>snap_timers = timers st, lastUpdatedMs = now\<rparr>"
    and "stringify \<lparr>snap_timers = timers st, lastUpdatedMs = now\<rparr> \<noteq> []"
  shows "timers (loadEffect parse now now2
                   (initialApp mounted (localStorage (persistEffect stringify True now st))))
           = timers st"
proof -
  have stored: "localStorage (persistEffect stringify True now st)
      = Some (stringify \<lparr>snap_timers = timers st, lastUpdatedMs = now\<rparr>)"
    using assms(1) by (simp add: persistEffect_def)
  have "loadTry parse now (localStorage (persistEffect stringify True now st))
      = Adjusted (map (adjustTimer 0) (timers st))"
    using assms(2,3) by (simp add: stored loadTry_def)
  then show ?thesis
    by (simp add: loadEffect_def initialApp_def map_idI adjustTimer_zero)
qed

lemma roundtrip_once_hydrated_example:
  "timers (loadEffect (parseFixed \<lparr>snap_timers = timers twoTimers, lastUpdatedMs = 7000\<rparr>)
             7000 7001
             (initialApp 7001 (localStorage (persistEffect stringifyFixed True 7000 twoTimers))))
     = [exampleTimer ''a'' 60000 10000 True, exampleTimer ''b'' 60000 20000 False]"
  using roundtrip_once_hydrated [where st = twoTimers and stringify = stringifyFixed
      and parse = "parseFixed \<lparr>snap_timers = timers twoTimers, lastUpdatedMs = 7000\<rparr>"
      and now = 7000 and ?now2.0 = 7001 and mounted = 7001]
  by (simp add: twoTimers_def stringifyFixed_def parseFixed_def)

text \<open>
  Claim C7 (persisting any collection and loading the snapshot with zero elapsed time
  gives the same collection). In a first session the load effect has left \<open>hydrated\<close>
  unset, so the persist effect that follows the adding of ``Ann'' at the instant 2000
  writes nothing: the storage stays empty, and a fresh start that loads it at the same
  instant has an empty collection, not the one that was to be persisted. The stand-ins
  for \<open>JSON.stringify\<close> and \<open>JSON.parse\<close> used here do read back this very payload.
\<close>

theorem first_session_roundtrip_loses_timers:
  "timers firstSession = [exampleTimer ''t1'' 3600000 3600000 False]
   \<and> hydrated firstSession = False
   \<and> parseFixed annPayload
        (stringifyFixed \<lparr>snap_timers = timers firstSession, lastUpdatedMs = 2000\<rparr>)
       = Some \<lparr>snap_timers = timers firstSession, lastUpdatedMs = 2000\<rparr>
   \<and> localStorage (persistEffect stringifyFixed True 2000 firstSession) = None
   \<and> timers (loadEffect (parseFixed annPayload) 2000 2000
                (initialApp 2000
                   (localStorage (persistEffect stringifyFixed True 2000 firstSession))))
       = []"
  by (simp add: firstSession_def annPayload_def exampleTimer_def addTimer_def
      setNameInput_def loadEffect_def loadTry_def persistEffect_def initialApp_def
      initialDurationMinutes_def trim_def isWhiteSpace_def parseFixed_def stringifyFixed_def)

section \<open>Create\<close>

lemma trim_Nil_iff: "trim s = [] \<longleftrightarrow> (\<forall>c \<in> set s. isWhiteSpace c)"
proof -
  have "trim s = [] \<longleftrightarrow> (\<forall>c \<in> set (dropWhile isWhiteSpace s). isWhiteSpace c)"
    by (simp add: trim_def)
  also have "\<dots> \<longleftrightarrow> dropWhile isWhiteSpace s = []"
  proof
    assume all: "\<forall>c \<in> set (dropWhile isWhiteSpace s). isWhiteSpace c"
    show "dropWhile isWhiteSpace s = []"
    proof (rule ccontr)
      assume ne: "dropWhile isWhiteSpace s \<noteq> []"
      then have "\<not> isWhiteSpace (hd (dropWhile isWhiteSpace s))"
        by (rule hd_dropWhile)
      moreover from ne have "hd (dropWhile isWhiteSpace s) \<in> set (dropWhile isWhiteSpace s)"
        by simp
      ultimately show False using all by blast
    qed
  next
    assume e: "dropWhile isWhiteSpace s = []"
    show "\<forall>c \<in> set (dropWhile isWhiteSpace s). isWhiteSpace c"
      unfolding e by simp
  qed
  also have "\<dots> \<longleftrightarrow> (\<forall>c \<in> set s. isWhiteSpace c)"
    by simp
  finally show ?thesis .
qed

text \<open>
  \<open>trim\<close> cuts white space off both ends and nothing else: the input is a run of white
  space, the trimmed text, and a run of white space; a trimmed text that is not empty
  neither starts nor ends with white space.
\<close>

lemma trim_splits:
  "s = takeWhile isWhiteSpace s @ trim s
         @ rev (takeWhile isWhiteSpace (rev (dropWhile isWhiteSpace s)))"
proof -
  let ?d = "dropWhile isWhiteSpace s"
  have "rev (rev ?d)
      = rev (takeWhile isWhiteSpace (rev ?d) @ dropWhile isWhiteSpace (rev ?d))"
    by (simp only: takeWhile_dropWhile_id)
  then have "?d = trim s @ rev (takeWhile isWhiteSpace (rev ?d))"
    by (simp only: rev_rev_ident rev_append trim_def)
  moreover have "s = takeWhile isWhiteSpace s @ ?d"
    by simp
  ultimately show ?thesis by metis
qed

lemma trim_ends:
  assumes "trim s \<noteq> []"
  shows "\<not> isWhiteSpace (hd (trim s))" and "\<not> isWhiteSpace (last (trim s))"
proof -
  let ?d = "dropWhile isWhiteSpace s"
  let ?e = "dropWhile isWhiteSpace (rev ?d)"
  from assms have e: "?e \<noteq> []" by (simp add: trim_def)
  then have "\<not> isWhiteSpace (hd ?e)" by (rule hd_dropWhile)
  with e show "\<not> isWhiteSpace (last (trim s))"
    by (simp add: trim_def last_rev)
  from e have d: "?d \<noteq> []" by (metis dropWhile.simps(1) rev.simps(1))
  then have hd_d: "\<not> isWhiteSpace (hd ?d)" by (rule hd_dropWhile)
  have "?d = trim s @ rev (takeWhile isWhiteSpace (rev ?d))"
    using trim_splits [of s] by (metis same_append_eq takeWhile_dropWhile_id)
  with assms have "hd ?d = hd (trim s)"
    by (metis hd_append2)
  with hd_d show "\<not> isWhiteSpace (hd (trim s))" by simp
qed

text \<open>
  Claim C8. When the trimmed name is not empty, \<open>addTimer\<close> appends one timer, with the
  trimmed name, \<open>durationMs = remainingMs = max(1, m) * 60 * 1000\<close> for the \<open>m\<close> minutes of
  the form, paused and unselected, after the existing timers; when the name is empty or
  white space only, the state is left as it is.
\<close>

theorem addTimer_spec:
  "(trim (nameInput st) \<noteq> [] \<longrightarrow>
      timers (addTimer newId st) =
        timers st @
          [\<lparr>timer_id = newId, name = trim (nameInput st),
            durationMs = max 1 (durationMinutes st) * 60 * 1000,
            remainingMs = max 1 (durationMinutes st) * 60 * 1000,
            isRunning = False, isSelected = False\<rparr>])
   \<and> ((\<forall>c \<in> set (nameInput st). isWhiteSpace c) \<longrightarrow> addTimer newId st = st)"
  by (simp add: addTimer_def trim_Nil_iff)

theorem addTimer_spec_witness:
  "timers (addTimer ''t2'' (setDurationMinutes 0 (setNameInput ''  Bob '' twoTimers))) =
     timers twoTimers @
       [\<lparr>timer_id = ''t2'', name = ''Bob'', durationMs = 60000, remainingMs = 60000,
         isRunning = False, isSelected = False\<rparr>]
   \<and> timers (addTimer ''t3'' (setDurationMinutes 5 (setNameInput ''Eve'' twoTimers))) =
     timers twoTimers @
       [\<lparr>timer_id = ''t3'', name = ''Eve'', durationMs = 300000, remainingMs = 300000,
         isRunning = False, isSelected = False\<rparr>]
   \<and> addTimer ''t2'' (setNameInput ''   '' twoTimers) = setNameInput ''   '' twoTimers
   \<and> addTimer ''t2'' (setNameInput '''' twoTimers) = setNameInput '''' twoTimers"
  using addTimer_spec [of "setDurationMinutes 0 (setNameInput ''  Bob '' twoTimers)" "''t2''"]
    addTimer_spec [of "setDurationMinutes 5 (setNameInput ''Eve'' twoTimers)" "''t3''"]
    addTimer_spec [of "setNameInput ''   '' twoTimers" "''t2''"]
    addTimer_spec [of "setNameInput '''' twoTimers" "''t2''"]
  by (simp add: setNameInput_def setDurationMinutes_def trim_def isWhiteSpace_def)

section \<open>Start\<close>

lemma start_if:
  "(if c then t\<lparr>isRunning := True\<rparr> else t) = t\<lparr>isRunning := (isRunning t \<or> c)\<rparr>"
  by (cases t) simp

lemma distinct_ids_nth:
  assumes "distinct (map timer_id ts)" and "k < length ts" and "j < length ts"
  shows "timer_id (ts ! k) = timer_id (ts ! j) \<longleftrightarrow> k = j"
  using assms nth_eq_iff_index_eq [of "map timer_id ts" k j] by simp

text \<open>
  Claim C5. For the timer at any position \<open>k\<close>: \<open>startSelected\<close> sets it running exactly
  when it is selected with \<open>remainingMs > 0\<close>, \<open>startAll\<close> exactly when
  \<open>remainingMs > 0\<close>, and a click on the start button of the paused card at position
  \<open>j\<close> (ids being unique) exactly when \<open>k = j\<close> and \<open>remainingMs > 0\<close>; nothing else
  of the timer changes. With no time left, each of the three leaves the timer as it is,
  and the click leaves the whole state as it is.
\<close>

theorem start_spec:
  assumes "k < length (timers st)"
  shows
    "timers (startSelected now st) ! k =
       (timers st ! k)\<lparr>isRunning := isRunning (timers st ! k)
          \<or> (isSelected (timers st ! k) \<and> 0 < remainingMs (timers st ! k))\<rparr>
     \<and> timers (startAll now st) ! k =
       (timers st ! k)\<lparr>isRunning := isRunning (timers st ! k)
          \<or> 0 < remainingMs (timers st ! k)\<rparr>
     \<and> (distinct (map timer_id (timers st)) \<and> j < length (timers st)
          \<and> \<not> isRunning (timers st ! j) \<longrightarrow>
        timers (clickStartPause (timers st ! j) st) ! k =
          (timers st ! k)\<lparr>isRunning := isRunning (timers st ! k)
             \<or> (k = j \<and> 0 < remainingMs (timers st ! j))\<rparr>)
     \<and> (remainingMs (timers st ! k) \<le> 0 \<longrightarrow>
          timers (startSelected now st) ! k = timers st ! k
        \<and> timers (startAll now st) ! k = timers st ! k
        \<and> clickStartPause (timers st ! k) st = st)"
proof -
  have sel: "timers (startSelected now st) ! k =
       (timers st ! k)\<lparr>isRunning := isRunning (timers st ! k)
          \<or> (isSelected (timers st ! k) \<and> 0 < remainingMs (timers st ! k))\<rparr>"
    using assms by (simp add: timers_actions start_if)
  have all: "timers (startAll now st) ! k =
       (timers st ! k)\<lparr>isRunning := isRunning (timers st ! k)
          \<or> 0 < remainingMs (timers st ! k)\<rparr>"
    using assms by (simp add: timers_actions start_if)
  have click: "timers (clickStartPause (timers st ! j) st) ! k =
          (timers st ! k)\<lparr>isRunning := isRunning (timers st ! k)
             \<or> (k = j \<and> 0 < remainingMs (timers st ! j))\<rparr>"
    if d: "distinct (map timer_id (timers st))" and j: "j < length (timers st)"
      and p: "\<not> isRunning (timers st ! j)"
  proof (cases "remainingMs (timers st ! j) \<le> 0")
    case True
    then show ?thesis
      by (simp add: clickStartPause_def startPauseDisabled_def)
  next
    case False
    show ?thesis
    proof (cases "k = j")
      case True
      with False p assms show ?thesis
        by (simp add: clickStartPause_def startPauseDisabled_def timers_actions)
    next
      case ne: False
      then have "timer_id (timers st ! k) \<noteq> timer_id (timers st ! j)"
        using distinct_ids_nth [OF d assms j] by simp
      with False ne assms show ?thesis
        by (simp add: clickStartPause_def startPauseDisabled_def timers_actions)
    qed
  qed
  have zero: "timers (startSelected now st) ! k = timers st ! k
        \<and> timers (startAll now st) ! k = timers st ! k
        \<and> clickStartPause (timers st ! k) st = st"
    if "remainingMs (timers st ! k) \<le> 0"
    using that assms
    by (simp add: timers_actions clickStartPause_def startPauseDisabled_def)
  from sel all click zero show ?thesis by blast
qed

theorem start_spec_witness:
  "timers (startSelected 7000 pausedPair) ! 0 = timers pausedPair ! 0
   \<and> timers (startAll 7000 pausedPair) ! 0 = timers pausedPair ! 0
   \<and> clickStartPause (timers pausedPair ! 0) pausedPair = pausedPair
   \<and> timers (startAll 7000 pausedPair) ! 1 = exampleTimer ''b'' 60000 20000 True
   \<and> timers (startSelected 7000 pausedPair) ! 1 = exampleTimer ''b'' 60000 20000 False
   \<and> timers (clickStartPause (timers pausedPair ! 1) pausedPair) ! 1
       = exampleTimer ''b'' 60000 20000 True
   \<and> timers (clickStartPause (timers pausedPair ! 1) pausedPair) ! 0 = timers pausedPair ! 0"
  using start_spec [of 0 pausedPair 7000 0] start_spec [of 1 pausedPair 7000 1]
    start_spec [of 0 pausedPair 7000 1]
  by (simp add: pausedPair_def exampleTimer_def)

section \<open>Order and untouched fields\<close>

lemma fixedFields_tickTimer: "fixedFields (tickTimer delta timer) = fixedFields timer"
  by (simp add: fixedFields_def tickTimer_def)

lemma fixedFields_adjustTimer: "fixedFields (adjustTimer elapsed timer) = fixedFields timer"
  by (simp add: fixedFields_def adjustTimer_def)

text \<open>
  Claim C10. \<open>addTimer\<close> keeps the existing timers as a prefix and adds at most one
  timer after them; \<open>removeTimer\<close> and \<open>removeSelected\<close> leave a subsequence of the
  collection (the retained timers in their order); every other action and the tick
  leave the list of (id, name, durationMs), position by position, as it was.
\<close>

theorem frame_and_order:
  "take (length (timers st)) (timers (addTimer newId st)) = timers st
   \<and> length (timers (addTimer newId st)) \<le> Suc (length (timers st))
   \<and> subseq (timers (removeTimer i st)) (timers st)
   \<and> subseq (timers (removeSelected st)) (timers st)
   \<and> map fixedFields (timers (toggleSelect i st)) = map fixedFields (timers st)
   \<and> map fixedFields (timers (startSelected now st)) = map fixedFields (timers st)
   \<and> map fixedFields (timers (startAll now st)) = map fixedFields (timers st)
   \<and> map fixedFields (timers (toggleRunning i st)) = map fixedFields (timers st)
   \<and> map fixedFields (timers (clickStartPause timer st)) = map fixedFields (timers st)
   \<and> map fixedFields (timers (pauseSelected st)) = map fixedFields (timers st)
   \<and> map fixedFields (timers (pauseAll st)) = map fixedFields (timers st)
   \<and> map fixedFields (timers (resetSelected st)) = map fixedFields (timers st)
   \<and> map fixedFields (timers (tick now st)) = map fixedFields (timers st)"
proof -
  have add: "take (length (timers st)) (timers (addTimer newId st)) = timers st
      \<and> length (timers (addTimer newId st)) \<le> Suc (length (timers st))"
    by (simp add: addTimer_def)
  have rem: "subseq (timers (removeTimer i st)) (timers st)
      \<and> subseq (timers (removeSelected st)) (timers st)"
    by (simp add: timers_actions)
  have upd: "map fixedFields (timers (toggleSelect i st)) = map fixedFields (timers st)"
    "map fixedFields (timers (startSelected now st)) = map fixedFields (timers st)"
    "map fixedFields (timers (startAll now st)) = map fixedFields (timers st)"
    "map fixedFields (timers (toggleRunning i st)) = map fixedFields (timers st)"
    "map fixedFields (timers (pauseSelected st)) = map fixedFields (timers st)"
    "map fixedFields (timers (pauseAll st)) = map fixedFields (timers st)"
    "map fixedFields (timers (resetSelected st)) = map fixedFields (timers st)"
    by (simp_all add: timers_actions fixedFields_def)
  have click: "map fixedFields (timers (clickStartPause timer st)) = map fixedFields (timers st)"
    by (simp add: clickStartPause_def timers_actions fixedFields_def)
  have tk: "map fixedFields (timers (tick now st)) = map fixedFields (timers st)"
    by (simp add: timers_tick fixedFields_tickTimer)
  from add rem upd click tk show ?thesis by simp
qed

end
